theory Spec2Isabelle
  imports Complex_Main
begin

section \<open>The storefront application (app.py)\<close>

text \<open>
  A shallow embedding of the Flask handlers of app.py. Every handler is a function from
  the world it runs in (the two JSON files, the upload folder, the client's session) to
  the response it gives, or the exception that leaves it, and the world afterwards.

  What the program takes from its libraries is a parameter of the model, collected in
  the record \<open>env\<close>: Werkzeug's password hashing and \<open>secure_filename\<close>, Python's
  \<open>float\<close> on a string, and the two readings of the clock. The general theorems hold
  for every such environment.

  A JSON file is missing, holds bytes that are not UTF-8 text (\<open>Undecodable\<close>), holds
  text that is not JSON (\<open>Unparsable\<close>), or holds a document. A document is the list under
  its collection key, if the key is there: the code reads it with a default
  (\<open>data.get('products', [])\<close>). A record has as fields the keys that the code reads by
  subscript; a key that the code reads with a default (\<open>user.get('is_admin', False)\<close>) or
  that it can store as null (\<open>request.form.get('name')\<close> on update) is an option.
\<close>

subsection \<open>Data\<close>

datatype exn =
  FileNotFoundError | UnicodeDecodeError | JSONDecodeError | ValueError | TypeError
  | AttributeError

record user =
  email :: string
  password :: string
  is_admin :: "bool option"

record 'f product =
  id' :: int
  name :: "string option"
  description :: "string option"
  price :: 'f
  category :: "string option"
  sizes :: "string list"
  image' :: string
  created_at :: string

type_synonym 'a document = "'a list option"

datatype 'a json_file = Missing | Undecodable | Unparsable | Parsed "'a document"

text \<open>
  The texts handed to \<open>flash\<close>, in the order of the source:
  AccessDenied "Acesso negado. Apenas administradores.", ProductNotFound "Produto nao
  encontrado", LoadError "Erro ao carregar produtos", FillAllFields "Preencha todos os
  campos", EmailTaken "Email ja cadastrado", RegisterOk "Cadastro realizado com
  sucesso!", LoginOk "Login realizado com sucesso!", BadCredentials "Email ou senha
  incorretos", LogoutOk "Logout realizado com sucesso", ProductAdded "Produto adicionado
  com sucesso!", ProductUpdated "Produto atualizado com sucesso!", ProductDeleted
  "Produto deletado com sucesso!".
\<close>

datatype message =
  AccessDenied | ProductNotFound | LoadError | FillAllFields | EmailTaken | RegisterOk
  | LoginOk | BadCredentials | LogoutOk | ProductAdded | ProductUpdated | ProductDeleted

datatype flash_category = Error | Success

text \<open>
  Flask keeps the flashed messages in the session, so \<open>session.clear()\<close> drops them too.
  Templates are not part of the source: a rendered page does not take messages out.
\<close>

record session_state =
  user_email :: "string option"
  session_is_admin :: "bool option"
  flashes :: "(message \<times> flash_category) list"

record 'f world =
  users_file :: "user json_file"
  products_file :: "'f product json_file"
  uploads :: "string list"
  session :: session_state

record 'f env =
  generate_password_hash :: "string \<Rightarrow> string"
  check_password_hash :: "string \<Rightarrow> string option \<Rightarrow> exn + bool"
  secure_filename :: "string \<Rightarrow> string"
  py_float :: "string \<Rightarrow> 'f option"
  strftime_now :: string
  isoformat_now :: string

datatype http_method = GET | POST

text \<open>\<open>request.form.get\<close> gives None for a field that was not sent.\<close>

record credentials_form =
  form_email :: "string option"
  form_password :: "string option"

text \<open>
  \<open>file_image\<close> is the file name of \<open>request.files.get('image')\<close>: an upload counts as
  present (is truthy) when it has a non-empty file name.
\<close>

record product_form =
  form_name :: "string option"
  form_description :: "string option"
  form_price :: "string option"
  form_category :: "string option"
  form_sizes :: "string list"
  file_image :: "string option"

datatype endpoint = EIndex | ELogin | ERegister | EAdminPanel | EAddProduct

datatype 'f page =
  IndexPage "'f product list" | ProductDetailPage "'f product" | RegisterPage | LoginPage
  | AdminPage "'f product list" | AddProductPage | EditProductPage "'f product"

datatype 'f response = Redirect endpoint | Render "'f page"

type_synonym 'f result = "(exn + 'f response) \<times> 'f world"

subsection \<open>Helpers\<close>

definition truthy :: "string option \<Rightarrow> bool" where
  "truthy x = (case x of None \<Rightarrow> False | Some s \<Rightarrow> s \<noteq> [])"

definition get_default :: "'a document \<Rightarrow> 'a list" where
  "get_default d = (case d of None \<Rightarrow> [] | Some xs \<Rightarrow> xs)"

definition max_default :: "int \<Rightarrow> int list \<Rightarrow> int" where
  "max_default d xs = (case xs of [] \<Rightarrow> d | x # rest \<Rightarrow> fold max rest x)"

fun next_index :: "('a \<Rightarrow> bool) \<Rightarrow> 'a list \<Rightarrow> nat option" where
  "next_index P [] = None"
| "next_index P (x # xs) = (if P x then Some 0 else map_option Suc (next_index P xs))"

definition to_float :: "'f env \<Rightarrow> string option \<Rightarrow> exn + 'f" where
  "to_float env x =
     (case x of
        None \<Rightarrow> Inl TypeError
      | Some s \<Rightarrow> (case py_float env s of None \<Rightarrow> Inl ValueError | Some v \<Rightarrow> Inr v))"

text \<open>\<open>all([name, description, price, category, image])\<close>\<close>

definition present :: "product_form \<Rightarrow> bool" where
  "present form =
     (truthy (form_name form) \<and> truthy (form_description form) \<and> truthy (form_price form) \<and>
      truthy (form_category form) \<and> truthy (file_image form))"

text \<open>
  The name under which an upload is stored: the time stamp, an underscore and the secured
  file name. Both handlers reach it only with an upload that has a file name.
\<close>

definition stored_name :: "'f env \<Rightarrow> product_form \<Rightarrow> string" where
  "stored_name env form =
     strftime_now env @ ''_'' @
       secure_filename env (case file_image form of None \<Rightarrow> [] | Some n \<Rightarrow> n)"

definition flash :: "message \<Rightarrow> flash_category \<Rightarrow> 'f world \<Rightarrow> 'f world" where
  "flash m c w = w\<lparr>session := (session w)\<lparr>flashes := flashes (session w) @ [(m, c)]\<rparr>\<rparr>"

subsection \<open>The document store\<close>

text \<open>
  \<open>load_json\<close> and \<open>save_json\<close> take and give the content of a file; the file that the
  source names is the field of the world that the handler reads or writes. Encoding and
  decoding are the json library's: the content of a file that was written is the document
  itself. \<open>open\<close> raises FileNotFoundError on a missing file; \<open>json.load\<close> reads the
  file as UTF-8 and raises UnicodeDecodeError on bytes that are not, and JSONDecodeError on
  text that is not JSON. \<open>init_json_files\<close> writes the files that do not exist, the users
  file with the default admin.
\<close>

definition admin :: "'f env \<Rightarrow> user" where
  "admin env =
     \<lparr>email = ''admin@modabrasileira.com'',
      password = generate_password_hash env ''admin123'',
      is_admin = Some True\<rparr>"

definition init_json_files :: "'f env \<Rightarrow> 'f world \<Rightarrow> 'f world" where
  "init_json_files env w =
     (let w1 = (if users_file w = Missing
                then w\<lparr>users_file := Parsed (Some [admin env])\<rparr> else w)
      in if products_file w1 = Missing
         then w1\<lparr>products_file := Parsed (Some [])\<rparr> else w1)"

definition load_json :: "'a json_file \<Rightarrow> exn + 'a document" where
  "load_json f =
     (case f of
        Missing \<Rightarrow> Inl FileNotFoundError
      | Undecodable \<Rightarrow> Inl UnicodeDecodeError
      | Unparsable \<Rightarrow> Inl JSONDecodeError
      | Parsed d \<Rightarrow> Inr d)"

definition save_json :: "'a document \<Rightarrow> 'a json_file" where
  "save_json d = Parsed d"

subsection \<open>The decorators\<close>

definition login_required :: "('f world \<Rightarrow> 'f result) \<Rightarrow> 'f world \<Rightarrow> 'f result" where
  "login_required f w =
     (if user_email (session w) = None then (Inr (Redirect ELogin), w) else f w)"

definition admin_required :: "('f world \<Rightarrow> 'f result) \<Rightarrow> 'f world \<Rightarrow> 'f result" where
  "admin_required f w =
     (if user_email (session w) = None \<or> session_is_admin (session w) \<noteq> Some True
      then (Inr (Redirect EIndex), flash AccessDenied Error w)
      else f w)"

subsection \<open>The routes\<close>

text \<open>\<open>except (FileNotFoundError, json.JSONDecodeError)\<close>\<close>

definition caught :: "exn \<Rightarrow> bool" where
  "caught e = (e = FileNotFoundError \<or> e = JSONDecodeError)"

definition index :: "'f env \<Rightarrow> 'f world \<Rightarrow> 'f result" where
  "index env w =
     (case load_json (products_file w) of
        Inr d \<Rightarrow> (Inr (Render (IndexPage (get_default d))), w)
      | Inl e \<Rightarrow>
          if caught e then (Inr (Render (IndexPage [])), init_json_files env w)
          else (Inl e, w))"

definition product_detail :: "int \<Rightarrow> 'f world \<Rightarrow> 'f result" where
  "product_detail product_id w =
     (case load_json (products_file w) of
        Inr d \<Rightarrow>
          (case find (\<lambda>p. id' p = product_id) (get_default d) of
             None \<Rightarrow> (Inr (Redirect EIndex), flash ProductNotFound Error w)
           | Some product \<Rightarrow> (Inr (Render (ProductDetailPage product)), w))
      | Inl e \<Rightarrow>
          if caught e then (Inr (Redirect EIndex), flash LoadError Error w)
          else (Inl e, w))"

definition register ::
  "'f env \<Rightarrow> http_method \<Rightarrow> credentials_form \<Rightarrow> 'f world \<Rightarrow> 'f result" where
  "register env method form w =
     (if method = POST then
        (case (form_email form, form_password form) of
           (Some em, Some pw) \<Rightarrow>
             if em = [] \<or> pw = []
             then (Inr (Redirect ERegister), flash FillAllFields Error w)
             else
               (case load_json (users_file w) of
                  Inl e \<Rightarrow> (Inl e, w)
                | Inr d \<Rightarrow>
                    let users = get_default d in
                    if list_ex (\<lambda>u. email u = em) users
                    then (Inr (Redirect ERegister), flash EmailTaken Error w)
                    else
                      (Inr (Redirect ELogin),
                       flash RegisterOk Success
                         (w\<lparr>users_file := save_json (Some (users @
                            [\<lparr>email = em,
                              password = generate_password_hash env pw,
                              is_admin = Some False\<rparr>]))\<rparr>)))
         | _ \<Rightarrow> (Inr (Redirect ERegister), flash FillAllFields Error w))
      else (Inr (Render RegisterPage), w))"

definition login ::
  "'f env \<Rightarrow> http_method \<Rightarrow> credentials_form \<Rightarrow> 'f world \<Rightarrow> 'f result" where
  "login env method form w =
     (if method = POST then
        (case load_json (users_file w) of
           Inl e \<Rightarrow> (Inl e, w)
         | Inr d \<Rightarrow>
             let users = get_default d;
                 failed = (Inr (Redirect ELogin), flash BadCredentials Error w)
             in
             (case find (\<lambda>u. Some (email u) = form_email form) users of
                None \<Rightarrow> failed
              | Some u \<Rightarrow>
                  (case check_password_hash env (password u) (form_password form) of
                     Inl e \<Rightarrow> (Inl e, w)
                   | Inr False \<Rightarrow> failed
                   | Inr True \<Rightarrow>
                       let adm = (case is_admin u of None \<Rightarrow> False | Some b \<Rightarrow> b) in
                       (Inr (Redirect (if adm then EAdminPanel else EIndex)),
                        flash LoginOk Success
                          (w\<lparr>session := (session w)
                               \<lparr>user_email := form_email form,
                                session_is_admin := Some adm\<rparr>\<rparr>)))))
      else (Inr (Render LoginPage), w))"

definition logout :: "'f world \<Rightarrow> 'f result" where
  "logout w =
     (Inr (Redirect EIndex),
      flash LogoutOk Success
        (w\<lparr>session := \<lparr>user_email = None, session_is_admin = None, flashes = []\<rparr>\<rparr>))"

definition admin_panel_view :: "'f world \<Rightarrow> 'f result" where
  "admin_panel_view w =
     (case load_json (products_file w) of
        Inl e \<Rightarrow> (Inl e, w)
      | Inr d \<Rightarrow> (Inr (Render (AdminPage (get_default d))), w))"

definition admin_panel :: "'f world \<Rightarrow> 'f result" where
  "admin_panel = admin_required admin_panel_view"

definition add_product_view ::
  "'f env \<Rightarrow> http_method \<Rightarrow> product_form \<Rightarrow> 'f world \<Rightarrow> 'f result" where
  "add_product_view env method form w =
     (if method = POST then
        (if \<not> present form
         then (Inr (Redirect EAddProduct), flash FillAllFields Error w)
         else
           let filename = stored_name env form;
               image_path = ''static/uploads/'' @ filename;
               w1 = w\<lparr>uploads := uploads w @ [image_path]\<rparr>
           in
           (case load_json (products_file w1) of
              Inl e \<Rightarrow> (Inl e, w1)
            | Inr d \<Rightarrow>
                let products = get_default d;
                    new_id = max_default 0 (map id' products) + 1
                in
                (case to_float env (form_price form) of
                   Inl e \<Rightarrow> (Inl e, w1)
                 | Inr pr \<Rightarrow>
                     (Inr (Redirect EAdminPanel),
                      flash ProductAdded Success
                        (w1\<lparr>products_file := save_json (Some (products @
                           [\<lparr>id' = new_id,
                             name = form_name form,
                             description = form_description form,
                             price = pr,
                             category = form_category form,
                             sizes = form_sizes form,
                             image' = ''uploads/'' @ filename,
                             created_at = isoformat_now env\<rparr>]))\<rparr>)))))
      else (Inr (Render AddProductPage), w))"

definition add_product ::
  "'f env \<Rightarrow> http_method \<Rightarrow> product_form \<Rightarrow> 'f world \<Rightarrow> 'f result" where
  "add_product env method form = admin_required (add_product_view env method form)"

definition edit_product_view ::
  "'f env \<Rightarrow> int \<Rightarrow> http_method \<Rightarrow> product_form \<Rightarrow> 'f world \<Rightarrow> 'f result" where
  "edit_product_view env product_id method form w =
     (case load_json (products_file w) of
        Inl e \<Rightarrow> (Inl e, w)
      | Inr d \<Rightarrow>
          let products = get_default d in
          (case next_index (\<lambda>p. id' p = product_id) products of
             None \<Rightarrow> (Inr (Redirect EAdminPanel), flash ProductNotFound Error w)
           | Some i \<Rightarrow>
               if method = POST then
                 (case to_float env (form_price form) of
                    Inl e \<Rightarrow> (Inl e, w)
                  | Inr pr \<Rightarrow>
                      let product = (products ! i)
                            \<lparr>name := form_name form,
                             description := form_description form,
                             price := pr,
                             category := form_category form,
                             sizes := form_sizes form\<rparr>
                      in
                      if truthy (file_image form) then
                        let filename = stored_name env form;
                            image_path = ''static/uploads/'' @ filename
                        in
                        (Inr (Redirect EAdminPanel),
                         flash ProductUpdated Success
                           (w\<lparr>uploads := uploads w @ [image_path],
                              products_file := save_json (Some
                                (products[i := product\<lparr>image' := ''uploads/'' @ filename\<rparr>]))\<rparr>))
                      else
                        (Inr (Redirect EAdminPanel),
                         flash ProductUpdated Success
                           (w\<lparr>products_file := save_json (Some (products[i := product]))\<rparr>)))
               else (Inr (Render (EditProductPage (products ! i))), w)))"

definition edit_product ::
  "'f env \<Rightarrow> int \<Rightarrow> http_method \<Rightarrow> product_form \<Rightarrow> 'f world \<Rightarrow> 'f result" where
  "edit_product env product_id method form =
     admin_required (edit_product_view env product_id method form)"

definition delete_product_view :: "int \<Rightarrow> 'f world \<Rightarrow> 'f result" where
  "delete_product_view product_id w =
     (case load_json (products_file w) of
        Inl e \<Rightarrow> (Inl e, w)
      | Inr d \<Rightarrow>
          let products = filter (\<lambda>p. id' p \<noteq> product_id) (get_default d) in
          (Inr (Redirect EAdminPanel),
           flash ProductDeleted Success (w\<lparr>products_file := save_json (Some products)\<rparr>)))"

definition delete_product :: "int \<Rightarrow> 'f world \<Rightarrow> 'f result" where
  "delete_product product_id = admin_required (delete_product_view product_id)"

subsection \<open>Serving requests\<close>

datatype request =
  Index | ProductDetail int | Register http_method credentials_form
  | Login http_method credentials_form | Logout | AdminPanel
  | AddProduct http_method product_form | EditProduct int http_method product_form
  | DeleteProduct int

fun handle :: "'f env \<Rightarrow> request \<Rightarrow> 'f world \<Rightarrow> 'f result" where
  "handle env Index w = index env w"
| "handle env (ProductDetail i) w = product_detail i w"
| "handle env (Register m f) w = register env m f w"
| "handle env (Login m f) w = login env m f w"
| "handle env Logout w = logout w"
| "handle env AdminPanel w = admin_panel w"
| "handle env (AddProduct m f) w = add_product env m f w"
| "handle env (EditProduct i m f) w = edit_product env i m f w"
| "handle env (DeleteProduct i) w = delete_product i w"

text \<open>
  The world after a sequence of requests, each served in its own environment (the clock
  moves, the hash draws a new salt). A request that ends in an exception keeps what it
  had written before.
\<close>

fun run :: "('f env \<times> request) list \<Rightarrow> 'f world \<Rightarrow> 'f world" where
  "run [] w = w"
| "run ((env, r) # rs) w = run rs (snd (handle env r w))"

subsection \<open>The admin routes\<close>

text \<open>The requests whose route carries the decorator \<open>@admin_required\<close>.\<close>

fun admin_route :: "request \<Rightarrow> bool" where
  "admin_route AdminPanel = True"
| "admin_route (AddProduct m f) = True"
| "admin_route (EditProduct i m f) = True"
| "admin_route (DeleteProduct i) = True"
| "admin_route r = False"

text \<open>The undecorated function behind an admin route.\<close>

fun view :: "'f env \<Rightarrow> request \<Rightarrow> 'f world \<Rightarrow> 'f result" where
  "view env AdminPanel w = admin_panel_view w"
| "view env (AddProduct m f) w = add_product_view env m f w"
| "view env (EditProduct i m f) w = edit_product_view env i m f w"
| "view env (DeleteProduct i) w = delete_product_view i w"
| "view env r w = handle env r w"

subsection \<open>Observations\<close>

text \<open>The session that passes \<open>admin_required\<close>.\<close>

definition is_admin_session :: "'f world \<Rightarrow> bool" where
  "is_admin_session w =
     (user_email (session w) \<noteq> None \<and> session_is_admin (session w) = Some True)"

text \<open>The collection that the handlers read: the list of the products file.\<close>

definition stored_products :: "'f world \<Rightarrow> 'f product list" where
  "stored_products w =
     (case load_json (products_file w) of Inl e \<Rightarrow> [] | Inr d \<Rightarrow> get_default d)"

text \<open>The ids of that collection, in the order of the file.\<close>

definition ids :: "'f world \<Rightarrow> int list" where
  "ids w = map id' (stored_products w)"

text \<open>An admin session over a products file that loads.\<close>

definition ready :: "'f world \<Rightarrow> bool" where
  "ready w = (is_admin_session w \<and> \<not> isl (load_json (products_file w)))"

subsection \<open>A sample environment\<close>

text \<open>
  Closed instances of the theorems need an environment to run in. \<open>decimal_float\<close> reads
  a plain decimal literal (an optional sign, digits, an optional point and digits) as
  Python's \<open>float\<close> does, giving the exact rational instead of the nearest double, and
  refuses every other string; it is used on such literals and on strings that \<open>float\<close>
  refuses too. The hash of the sample environment is not a hash: only what the handlers do
  with it matters here. Its check raises AttributeError on an absent password, as
  Werkzeug's does when it encodes the password it was given.
\<close>

definition digit_value :: "char \<Rightarrow> nat option" where
  "digit_value c = map_of (zip ''0123456789'' [0, 1, 2, 3, 4, 5, 6, 7, 8, 9]) c"

fun digits_value :: "nat \<Rightarrow> string \<Rightarrow> nat option" where
  "digits_value acc [] = Some acc"
| "digits_value acc (c # cs) =
     (case digit_value c of None \<Rightarrow> None | Some d \<Rightarrow> digits_value (10 * acc + d) cs)"

definition decimal_float :: "string \<Rightarrow> rat option" where
  "decimal_float s =
     (let (sgn, body) =
            (case s of
               [] \<Rightarrow> (1, s)
             | c # r \<Rightarrow> if c = CHR ''-'' then (- 1, r) else if c = CHR ''+'' then (1, r) else (1, s));
          ip = takeWhile (\<lambda>c. c \<noteq> CHR ''.'') body;
          fp = drop 1 (dropWhile (\<lambda>c. c \<noteq> CHR ''.'') body)
      in if ip = [] \<and> fp = [] then None
         else (case (digits_value 0 ip, digits_value 0 fp) of
                 (Some i, Some f) \<Rightarrow> Some (sgn * (of_nat i + of_nat f / 10 ^ length fp))
               | _ \<Rightarrow> None))"

definition sample_env :: "rat env" where
  "sample_env =
     \<lparr>generate_password_hash = (\<lambda>pw. ''salt$'' @ pw),
      check_password_hash =
        (\<lambda>h pw. case pw of None \<Rightarrow> Inl AttributeError | Some s \<Rightarrow> Inr (h = ''salt$'' @ s)),
      secure_filename = (\<lambda>n. n),
      py_float = decimal_float,
      strftime_now = ''20240101120000'',
      isoformat_now = ''2024-01-01T12:00:00''\<rparr>"

subsection \<open>Sample sessions, worlds and forms\<close>

definition anonymous :: session_state where
  "anonymous = \<lparr>user_email = None, session_is_admin = None, flashes = []\<rparr>"

definition customer_session :: session_state where
  "customer_session =
     \<lparr>user_email = Some ''ana@example.com'', session_is_admin = Some False, flashes = []\<rparr>"

definition admin_session :: session_state where
  "admin_session =
     \<lparr>user_email = Some ''admin@modabrasileira.com'', session_is_admin = Some True,
      flashes = []\<rparr>"

text \<open>The world right after the first start: \<open>init_json_files\<close> has written both files.\<close>

definition fresh_world :: "session_state \<Rightarrow> rat world" where
  "fresh_world s =
     \<lparr>users_file = Parsed (Some [admin sample_env]),
      products_file = Parsed (Some []),
      uploads = [],
      session = s\<rparr>"

definition shirt_form :: product_form where
  "shirt_form =
     \<lparr>form_name = Some ''Shirt'', form_description = Some ''Cotton shirt'',
      form_price = Some ''29.90'', form_category = Some ''tops'',
      form_sizes = [''M'', ''L''], file_image = Some ''shirt.png''\<rparr>"

definition ana :: user where
  "ana = \<lparr>email = ''ana@example.com'', password = ''salt$segredo'', is_admin = Some False\<rparr>"

definition shop_world :: "session_state \<Rightarrow> rat world" where
  "shop_world s = (fresh_world s)\<lparr>users_file := Parsed (Some [admin sample_env, ana])\<rparr>"

definition credentials :: "string \<Rightarrow> string \<Rightarrow> credentials_form" where
  "credentials em pw = \<lparr>form_email = Some em, form_password = Some pw\<rparr>"

definition shirt :: "rat product" where
  "shirt =
     \<lparr>id' = 1, name = Some ''Shirt'', description = Some ''Cotton shirt'',
      price = 299 / 10, category = Some ''tops'', sizes = [''M'', ''L''],
      image' = ''uploads/20240101120000_shirt.png'', created_at = ''2024-01-01T12:00:00''\<rparr>"

definition pants :: "rat product" where
  "pants =
     \<lparr>id' = 2, name = Some ''Pants'', description = Some ''Linen pants'',
      price = 499 / 10, category = Some ''bottoms'', sizes = [],
      image' = ''uploads/20240101120500_pants.png'', created_at = ''2024-01-01T12:05:00''\<rparr>"

definition stocked_world :: "session_state \<Rightarrow> rat world" where
  "stocked_world s = (fresh_world s)\<lparr>products_file := Parsed (Some [shirt, pants])\<rparr>"

definition pants_form :: product_form where
  "pants_form =
     \<lparr>form_name = Some ''Trousers'', form_description = Some ''Wool trousers'',
      form_price = Some ''59.5'', form_category = Some ''bottoms'',
      form_sizes = [''S''], file_image = None\<rparr>"

definition blank_form :: "string option \<Rightarrow> product_form" where
  "blank_form pr =
     \<lparr>form_name = None, form_description = None, form_price = pr, form_category = None,
      form_sizes = [], file_image = None\<rparr>"

definition missing_world :: "session_state \<Rightarrow> rat world" where
  "missing_world s = \<lparr>users_file = Missing, products_file = Missing, uploads = [], session = s\<rparr>"

text \<open>A world whose products file holds text that is not JSON.\<close>

definition broken_world :: "session_state \<Rightarrow> rat world" where
  "broken_world s = (fresh_world s)\<lparr>products_file := Unparsable\<rparr>"

section \<open>Access control\<close>

lemma sample_env_simps [simp]:
  "generate_password_hash sample_env pw = ''salt$'' @ pw"
  "check_password_hash sample_env h None = Inl AttributeError"
  "check_password_hash sample_env h (Some s) = Inr (h = ''salt$'' @ s)"
  "secure_filename sample_env n = n"
  "py_float sample_env = decimal_float"
  "strftime_now sample_env = ''20240101120000''"
  "isoformat_now sample_env = ''2024-01-01T12:00:00''"
  by (simp_all add: sample_env_def)

lemma flash_files [simp]:
  "users_file (flash m c w) = users_file w"
  "products_file (flash m c w) = products_file w"
  "uploads (flash m c w) = uploads w"
  "user_email (session (flash m c w)) = user_email (session w)"
  "session_is_admin (session (flash m c w)) = session_is_admin (session w)"
  "flashes (session (flash m c w)) = flashes (session w) @ [(m, c)]"
  by (simp_all add: flash_def)

lemma handle_admin_route:
  "admin_route r \<Longrightarrow> handle env r w = admin_required (view env r) w"
  by (cases r)
    (simp_all add: admin_panel_def add_product_def edit_product_def delete_product_def
      admin_required_def)

text \<open>
  C5. On every admin route the gate answers a session without identity and a session
  whose identity is not an admin alike: a redirect to the landing page and the notice
  AccessDenied, whatever the decorated function is; the two files and the upload folder
  are as before, and the identity in the session too. A session with an identity and
  \<open>is_admin\<close> true reaches the decorated function.
\<close>

theorem require_admin_gate:
  fixes f :: "'f world \<Rightarrow> 'f result"
  shows
    "(\<not> is_admin_session w \<longrightarrow>
        admin_required f w = (Inr (Redirect EIndex), flash AccessDenied Error w) \<and>
        users_file (snd (admin_required f w)) = users_file w \<and>
        products_file (snd (admin_required f w)) = products_file w \<and>
        uploads (snd (admin_required f w)) = uploads w \<and>
        (admin_route r \<longrightarrow>
           handle env r w = (Inr (Redirect EIndex), flash AccessDenied Error w))) \<and>
     (is_admin_session w \<longrightarrow>
        admin_required f w = f w \<and> (admin_route r \<longrightarrow> handle env r w = view env r w))"
  by (simp add: handle_admin_route admin_required_def is_admin_session_def)

theorem require_admin_gate_witness:
  "admin_required (delete_product_view 1) (fresh_world anonymous)
     = (Inr (Redirect EIndex), flash AccessDenied Error (fresh_world anonymous)) \<and>
   handle sample_env (DeleteProduct 1) (fresh_world customer_session)
     = (Inr (Redirect EIndex), flash AccessDenied Error (fresh_world customer_session)) \<and>
   fst (handle sample_env (AddProduct POST shirt_form) (fresh_world anonymous))
     = fst (handle sample_env (AddProduct POST shirt_form) (fresh_world customer_session)) \<and>
   products_file (snd (handle sample_env (AddProduct POST shirt_form) (fresh_world anonymous)))
     = Parsed (Some []) \<and>
   handle sample_env AdminPanel (fresh_world admin_session)
     = (Inr (Render (AdminPage [])), fresh_world admin_session)"
  using
    require_admin_gate [of "fresh_world anonymous" "delete_product_view 1" "AddProduct POST shirt_form" sample_env]
    require_admin_gate [of "fresh_world customer_session" "delete_product_view 1" "DeleteProduct 1" sample_env]
    require_admin_gate [of "fresh_world customer_session" "delete_product_view 1" "AddProduct POST shirt_form" sample_env]
    require_admin_gate [of "fresh_world admin_session" "admin_panel_view" AdminPanel sample_env]
  by (simp add: is_admin_session_def fresh_world_def anonymous_def customer_session_def
      admin_session_def admin_panel_view_def load_json_def get_default_def)

section \<open>Users\<close>

lemma find_first:
  "\<forall>v \<in> set xs. \<not> P v \<Longrightarrow> P u \<Longrightarrow> find P (xs @ u # ys) = Some u"
  by (induction xs) auto

lemma find_no_email:
  "x \<notin> (\<lambda>v. Some (email v)) ` set us \<Longrightarrow> find (\<lambda>v. Some (email v) = x) us = None"
  by (induction us) auto

text \<open>
  What holds of the login where the check gives a verdict. Where the user file loads,
  let \<open>u\<close> be the first stored record with the email of the form (the only one, when each
  email is stored once). A login with a password that \<open>check_password_hash\<close> accepts for
  the hash of \<open>u\<close> succeeds, and the session gets that email and the \<open>is_admin\<close> flag
  stored in \<open>u\<close> (false when the record has none). A login with a password that the check
  rejects, and a login with an email that no stored record has, end in the very same
  outcome: the redirect to the login page, the notice BadCredentials, and nothing else
  changed.
\<close>

lemma authenticate_uniform:
  assumes "load_json (users_file w) = Inr d"
  shows
    "(get_default d = xs @ u # ys \<and> (\<forall>v \<in> set xs. email v \<noteq> email u) \<and>
      form_email form = Some (email u) \<and>
      check_password_hash env (password u) (form_password form) = Inr True \<longrightarrow>
        login env POST form w =
          (Inr (Redirect (if is_admin u = Some True then EAdminPanel else EIndex)),
           flash LoginOk Success
             (w\<lparr>session := (session w)
                  \<lparr>user_email := Some (email u),
                   session_is_admin := Some (is_admin u = Some True)\<rparr>\<rparr>))) \<and>
     (get_default d = xs @ u # ys \<and> (\<forall>v \<in> set xs. email v \<noteq> email u) \<and>
      form_email form = Some (email u) \<and>
      check_password_hash env (password u) (form_password form) = Inr False \<longrightarrow>
        login env POST form w = (Inr (Redirect ELogin), flash BadCredentials Error w)) \<and>
     (form_email form \<notin> (\<lambda>v. Some (email v)) ` set (get_default d) \<longrightarrow>
        login env POST form w = (Inr (Redirect ELogin), flash BadCredentials Error w))"
proof (intro conjI impI)
  assume h: "get_default d = xs @ u # ys \<and> (\<forall>v \<in> set xs. email v \<noteq> email u) \<and>
      form_email form = Some (email u) \<and>
      check_password_hash env (password u) (form_password form) = Inr True"
  then have "find (\<lambda>v. Some (email v) = form_email form) (get_default d) = Some u"
    by (simp add: find_first)
  with h assms show "login env POST form w =
          (Inr (Redirect (if is_admin u = Some True then EAdminPanel else EIndex)),
           flash LoginOk Success
             (w\<lparr>session := (session w)
                  \<lparr>user_email := Some (email u),
                   session_is_admin := Some (is_admin u = Some True)\<rparr>\<rparr>))"
    by (cases "is_admin u") (auto simp: login_def)
next
  assume h: "get_default d = xs @ u # ys \<and> (\<forall>v \<in> set xs. email v \<noteq> email u) \<and>
      form_email form = Some (email u) \<and>
      check_password_hash env (password u) (form_password form) = Inr False"
  then have "find (\<lambda>v. Some (email v) = form_email form) (get_default d) = Some u"
    by (simp add: find_first)
  with h assms show
    "login env POST form w = (Inr (Redirect ELogin), flash BadCredentials Error w)"
    by (simp add: login_def)
next
  assume "form_email form \<notin> (\<lambda>v. Some (email v)) ` set (get_default d)"
  then have "find (\<lambda>v. Some (email v) = form_email form) (get_default d) = None"
    by (rule find_no_email)
  with assms show
    "login env POST form w = (Inr (Redirect ELogin), flash BadCredentials Error w)"
    by (simp add: login_def)
qed

lemma authenticate_uniform_sample:
  "login sample_env POST (credentials ''admin@modabrasileira.com'' ''admin123'')
       (shop_world anonymous)
     = (Inr (Redirect EAdminPanel),
        flash LoginOk Success
          ((shop_world anonymous)\<lparr>session :=
             \<lparr>user_email = Some ''admin@modabrasileira.com'', session_is_admin = Some True,
              flashes = []\<rparr>\<rparr>)) \<and>
   login sample_env POST (credentials ''ana@example.com'' ''segredo'') (shop_world anonymous)
     = (Inr (Redirect EIndex),
        flash LoginOk Success
          ((shop_world anonymous)\<lparr>session :=
             \<lparr>user_email = Some ''ana@example.com'', session_is_admin = Some False,
              flashes = []\<rparr>\<rparr>)) \<and>
   login sample_env POST (credentials ''ana@example.com'' ''errada'') (shop_world anonymous)
     = (Inr (Redirect ELogin), flash BadCredentials Error (shop_world anonymous)) \<and>
   login sample_env POST (credentials ''eva@example.com'' ''errada'') (shop_world anonymous)
     = (Inr (Redirect ELogin), flash BadCredentials Error (shop_world anonymous))"
proof -
  have ld: "load_json (users_file (shop_world anonymous)) = Inr (Some [admin sample_env, ana])"
    by (simp add: shop_world_def load_json_def)
  show ?thesis
    using
      authenticate_uniform [OF ld, of "[]" "admin sample_env" "[ana]"
        "credentials ''admin@modabrasileira.com'' ''admin123''" sample_env]
      authenticate_uniform [OF ld, of "[admin sample_env]" ana "[]"
        "credentials ''ana@example.com'' ''segredo''" sample_env]
      authenticate_uniform [OF ld, of "[admin sample_env]" ana "[]"
        "credentials ''ana@example.com'' ''errada''" sample_env]
      authenticate_uniform [OF ld, of "[admin sample_env]" ana "[]"
        "credentials ''eva@example.com'' ''errada''" sample_env]
    by (simp add: shop_world_def fresh_world_def anonymous_def get_default_def
        admin_def ana_def credentials_def)
qed

text \<open>
  The check is called with whatever the form gave as password, None when the field was
  not sent, and only when a record of the email was found; what it raises leaves the
  handler.
\<close>

lemma login_check_raises:
  assumes "load_json (users_file w) = Inr d"
    and "get_default d = xs @ u # ys"
    and "\<forall>v \<in> set xs. email v \<noteq> email u"
    and "form_email form = Some (email u)"
    and "check_password_hash env (password u) (form_password form) = Inl e"
  shows "login env POST form w = (Inl e, w)"
proof -
  have "find (\<lambda>v. Some (email v) = form_email form) (get_default d) = Some u"
    using assms(2-4) by (simp add: find_first)
  with assms(1,5) show ?thesis
    by (simp add: login_def)
qed

text \<open>
  C4, at the failing input: the login form is sent without the password field. For the
  email of a stored user, Werkzeug's \<open>check_password_hash\<close> is called with None and
  raises AttributeError, which leaves the handler; for an email that no stored user has,
  the check is not called and the handler answers with the notice BadCredentials. The two
  failures can be told apart, where the claim has them end alike.
\<close>

theorem login_without_password_distinguishes:
  "login sample_env POST \<lparr>form_email = Some ''ana@example.com'', form_password = None\<rparr>
       (shop_world anonymous)
     = (Inl AttributeError, shop_world anonymous) \<and>
   login sample_env POST \<lparr>form_email = Some ''eva@example.com'', form_password = None\<rparr>
       (shop_world anonymous)
     = (Inr (Redirect ELogin), flash BadCredentials Error (shop_world anonymous))"
proof -
  have ld: "load_json (users_file (shop_world anonymous)) = Inr (Some [admin sample_env, ana])"
    by (simp add: shop_world_def load_json_def)
  have stored: "login sample_env POST
      \<lparr>form_email = Some ''ana@example.com'', form_password = None\<rparr> (shop_world anonymous)
      = (Inl AttributeError, shop_world anonymous)"
    using login_check_raises [OF ld, of "[admin sample_env]" ana "[]"
        "\<lparr>form_email = Some ''ana@example.com'', form_password = None\<rparr>" sample_env
        AttributeError]
    by (simp add: get_default_def admin_def ana_def)
  have unknown: "login sample_env POST
      \<lparr>form_email = Some ''eva@example.com'', form_password = None\<rparr> (shop_world anonymous)
      = (Inr (Redirect ELogin), flash BadCredentials Error (shop_world anonymous))"
    by (simp add: login_def ld get_default_def admin_def ana_def)
  show ?thesis
    using stored unknown by (rule conjI)
qed

text \<open>
  C6. A registration whose email or password is missing or empty ends in the notice
  FillAllFields. Where the user file loads: a registration whose email is the email of a
  stored record, compared as strings, ends in the notice EmailTaken; any other appends
  the record of that email, the hash of the password and \<open>is_admin\<close> false, and nothing
  else. In both failures the user file is what it was.
\<close>

theorem register_outcomes:
  shows
    "(\<not> truthy (form_email form) \<or> \<not> truthy (form_password form) \<longrightarrow>
        register env POST form w = (Inr (Redirect ERegister), flash FillAllFields Error w) \<and>
        users_file (snd (register env POST form w)) = users_file w) \<and>
     (load_json (users_file w) = Inr d \<and> form_email form = Some em \<and>
      form_password form = Some pw \<and> em \<noteq> [] \<and> pw \<noteq> [] \<longrightarrow>
        (em \<in> email ` set (get_default d) \<longrightarrow>
           register env POST form w = (Inr (Redirect ERegister), flash EmailTaken Error w) \<and>
           users_file (snd (register env POST form w)) = users_file w) \<and>
        (em \<notin> email ` set (get_default d) \<longrightarrow>
           register env POST form w =
             (Inr (Redirect ELogin),
              flash RegisterOk Success
                (w\<lparr>users_file := Parsed (Some (get_default d @
                   [\<lparr>email = em, password = generate_password_hash env pw,
                     is_admin = Some False\<rparr>]))\<rparr>))))"
  by (auto simp: register_def truthy_def list_ex_iff save_json_def image_iff Let_def
      split: option.splits)

theorem register_outcomes_witness:
  "register sample_env POST \<lparr>form_email = Some ''eva@example.com'', form_password = Some []\<rparr>
       (shop_world anonymous)
     = (Inr (Redirect ERegister), flash FillAllFields Error (shop_world anonymous)) \<and>
   register sample_env POST (credentials ''ana@example.com'' ''outra'') (shop_world anonymous)
     = (Inr (Redirect ERegister), flash EmailTaken Error (shop_world anonymous)) \<and>
   users_file (snd (register sample_env POST (credentials ''ana@example.com'' ''outra'')
       (shop_world anonymous)))
     = Parsed (Some [admin sample_env, ana]) \<and>
   users_file (snd (register sample_env POST (credentials ''Ana@example.com'' ''outra'')
       (shop_world anonymous)))
     = Parsed (Some [admin sample_env, ana,
         \<lparr>email = ''Ana@example.com'', password = ''salt$outra'', is_admin = Some False\<rparr>])"
  using
    register_outcomes [of "\<lparr>form_email = Some ''eva@example.com'', form_password = Some []\<rparr>"
      sample_env "shop_world anonymous" "Some [admin sample_env, ana]" "''eva@example.com''" "[]"]
    register_outcomes [of "credentials ''ana@example.com'' ''outra''"
      sample_env "shop_world anonymous" "Some [admin sample_env, ana]" "''ana@example.com''"
      "''outra''"]
    register_outcomes [of "credentials ''Ana@example.com'' ''outra''"
      sample_env "shop_world anonymous" "Some [admin sample_env, ana]" "''Ana@example.com''"
      "''outra''"]
  by (simp add: shop_world_def fresh_world_def anonymous_def load_json_def get_default_def
      admin_def ana_def credentials_def truthy_def)

section \<open>Products\<close>

lemma is_admin_session_flash [simp]:
  "is_admin_session (flash m c w) = is_admin_session w"
  by (simp add: is_admin_session_def)

lemma is_admin_session_products_file [simp]:
  "is_admin_session (w\<lparr>products_file := f\<rparr>) = is_admin_session w"
  by (simp add: is_admin_session_def)

lemma is_admin_session_uploads [simp]:
  "is_admin_session (w\<lparr>uploads := f\<rparr>) = is_admin_session w"
  by (simp add: is_admin_session_def)

lemma admin_required_pass [simp]: "is_admin_session w \<Longrightarrow> admin_required f w = f w"
  by (auto simp: admin_required_def is_admin_session_def)

lemma load_json_Parsed [simp]: "load_json (Parsed d) = Inr d"
  by (simp add: load_json_def)

lemma find_filter_out: "find (\<lambda>p. id' p = i) (filter (\<lambda>p. id' p \<noteq> i) ps) = None"
  by (induction ps) auto

lemma find_filter_other:
  "j \<noteq> i \<Longrightarrow> find (\<lambda>p. id' p = j) (filter (\<lambda>p. id' p \<noteq> i) ps) = find (\<lambda>p. id' p = j) ps"
  by (induction ps) auto

lemma filter_no_match: "i \<notin> id' ` set ps \<Longrightarrow> filter (\<lambda>p. id' p \<noteq> i) ps = ps"
  by (induction ps) auto

lemma delete_product_result:
  assumes "is_admin_session w" and "load_json (products_file w) = Inr d"
  shows "delete_product i w =
           (Inr (Redirect EAdminPanel),
            flash ProductDeleted Success
              (w\<lparr>products_file := Parsed (Some (filter (\<lambda>p. id' p \<noteq> i) (get_default d)))\<rparr>))"
  using assms by (simp add: delete_product_def delete_product_view_def save_json_def)

text \<open>
  C8. For an admin, with a products file that loads: deleting an id writes the
  collection without the records of that id and signals success; the detail page of that
  id then answers that the product is not found; an id that no record had leaves the
  collection as it was and signals success all the same; a second delete of the same id
  leaves the file of the first and signals success again; and what the detail page shows
  for any other id is what it showed before.
\<close>

theorem delete_then_absent:
  assumes "is_admin_session w" and "load_json (products_file w) = Inr d"
  shows
    "delete_product i w =
       (Inr (Redirect EAdminPanel),
        flash ProductDeleted Success
          (w\<lparr>products_file := Parsed (Some (filter (\<lambda>p. id' p \<noteq> i) (get_default d)))\<rparr>)) \<and>
     product_detail i (snd (delete_product i w)) =
       (Inr (Redirect EIndex), flash ProductNotFound Error (snd (delete_product i w))) \<and>
     (i \<notin> id' ` set (get_default d) \<longrightarrow>
        stored_products (snd (delete_product i w)) = stored_products w) \<and>
     fst (delete_product i (snd (delete_product i w))) = Inr (Redirect EAdminPanel) \<and>
     products_file (snd (delete_product i (snd (delete_product i w)))) =
       products_file (snd (delete_product i w)) \<and>
     (j \<noteq> i \<longrightarrow>
        fst (product_detail j (snd (delete_product i w))) = fst (product_detail j w))"
proof -
  let ?w' = "snd (delete_product i w)"
  have del: "delete_product i w =
       (Inr (Redirect EAdminPanel),
        flash ProductDeleted Success
          (w\<lparr>products_file := Parsed (Some (filter (\<lambda>p. id' p \<noteq> i) (get_default d)))\<rparr>))"
    using assms by (rule delete_product_result)
  have file': "products_file ?w' = Parsed (Some (filter (\<lambda>p. id' p \<noteq> i) (get_default d)))"
    by (simp add: del)
  have adm': "is_admin_session ?w'"
    using assms(1) by (simp add: del)
  have del2: "delete_product i ?w' =
       (Inr (Redirect EAdminPanel),
        flash ProductDeleted Success
          (?w'\<lparr>products_file := Parsed (Some (filter (\<lambda>p. id' p \<noteq> i)
             (filter (\<lambda>p. id' p \<noteq> i) (get_default d))))\<rparr>))"
    using delete_product_result [OF adm', of "Some (filter (\<lambda>p. id' p \<noteq> i) (get_default d))" i]
    by (simp add: file' get_default_def)
  have absent: "product_detail i ?w' = (Inr (Redirect EIndex), flash ProductNotFound Error ?w')"
    by (simp add: product_detail_def file' get_default_def find_filter_out)
  have same: "i \<notin> id' ` set (get_default d) \<longrightarrow> stored_products ?w' = stored_products w"
    using assms(2) by (simp add: stored_products_def file' get_default_def filter_no_match)
  have twice: "products_file (snd (delete_product i ?w')) = products_file ?w'"
    by (simp add: del2 file')
  have others: "j \<noteq> i \<longrightarrow> fst (product_detail j ?w') = fst (product_detail j w)"
    using assms(2)
    by (simp add: product_detail_def file' get_default_def find_filter_other
        split: option.splits)
  have again: "fst (delete_product i ?w') = Inr (Redirect EAdminPanel)"
    by (simp add: del2)
  show ?thesis
    by (intro conjI; fact del absent same again twice others)
qed

theorem delete_then_absent_witness:
  "stored_products (snd (delete_product 1 (stocked_world admin_session))) = [pants] \<and>
   fst (delete_product 1 (stocked_world admin_session)) = Inr (Redirect EAdminPanel) \<and>
   fst (product_detail 1 (snd (delete_product 1 (stocked_world admin_session))))
     = Inr (Redirect EIndex) \<and>
   fst (product_detail 2 (snd (delete_product 1 (stocked_world admin_session))))
     = Inr (Render (ProductDetailPage pants)) \<and>
   stored_products (snd (delete_product 7 (stocked_world admin_session))) = [shirt, pants] \<and>
   fst (delete_product 7 (stocked_world admin_session)) = Inr (Redirect EAdminPanel)"
proof -
  have adm: "is_admin_session (stocked_world admin_session)"
    by (simp add: is_admin_session_def stocked_world_def fresh_world_def admin_session_def)
  have ld: "load_json (products_file (stocked_world admin_session)) = Inr (Some [shirt, pants])"
    by (simp add: stocked_world_def)
  have ids: "id' shirt = 1" "id' pants = 2"
    by (simp_all add: shirt_def pants_def)
  show ?thesis
    using delete_then_absent [OF adm ld, of 1 2] delete_then_absent [OF adm ld, of 7 2]
    by (simp add: stored_products_def get_default_def ids product_detail_def ld)
qed

lemma next_index_first:
  "\<forall>q \<in> set xs. \<not> P q \<Longrightarrow> P p \<Longrightarrow> next_index P (xs @ p # ys) = Some (length xs)"
  by (induction xs) auto

lemma edit_product_post:
  assumes "is_admin_session w"
    and "load_json (products_file w) = Inr d"
    and "get_default d = xs @ p # ys"
    and "\<forall>q \<in> set xs. id' q \<noteq> i"
    and "id' p = i"
  shows "edit_product env i POST form w =
     (case to_float env (form_price form) of
        Inl e \<Rightarrow> (Inl e, w)
      | Inr pr \<Rightarrow>
          (Inr (Redirect EAdminPanel),
           flash ProductUpdated Success
             (w\<lparr>uploads :=
                  (if truthy (file_image form)
                   then uploads w @ [''static/uploads/'' @ stored_name env form]
                   else uploads w),
                products_file := Parsed (Some (xs @
                  p\<lparr>name := form_name form,
                    description := form_description form,
                    price := pr,
                    category := form_category form,
                    sizes := form_sizes form,
                    image' :=
                      (if truthy (file_image form)
                       then ''uploads/'' @ stored_name env form
                       else image' p)\<rparr> # ys))\<rparr>)))"
proof -
  have ix: "next_index (\<lambda>q. id' q = i) (xs @ p # ys) = Some (length xs)"
    using assms(4,5) by (simp add: next_index_first)
  show ?thesis
    using assms(1,2)
    by (cases "file_image form")
      (simp_all add: edit_product_def edit_product_view_def ix assms(3) save_json_def Let_def
        truthy_def split: sum.splits)
qed

text \<open>
  C7. For an admin, a products file that loads, the first record \<open>p\<close> of the id and a
  price that \<open>float\<close> reads: the update writes the collection with \<open>p\<close> replaced, at its
  place, by the record that has the submitted name, description, price, category and
  sizes, the new image reference if an image with a file name was sent and the one of
  \<open>p\<close> otherwise, and the id and creation time of \<open>p\<close>; the records before and after it
  are the same.
\<close>

theorem update_frame:
  assumes "is_admin_session w"
    and "load_json (products_file w) = Inr d"
    and "get_default d = xs @ p # ys"
    and "\<forall>q \<in> set xs. id' q \<noteq> i"
    and "id' p = i"
    and "to_float env (form_price form) = Inr pr"
  shows
    "edit_product env i POST form w =
       (Inr (Redirect EAdminPanel),
        flash ProductUpdated Success
          (w\<lparr>uploads :=
               (if truthy (file_image form)
                then uploads w @ [''static/uploads/'' @ stored_name env form]
                else uploads w),
             products_file := Parsed (Some (xs @
               \<lparr>id' = id' p,
                name = form_name form,
                description = form_description form,
                price = pr,
                category = form_category form,
                sizes = form_sizes form,
                image' =
                  (if truthy (file_image form)
                   then ''uploads/'' @ stored_name env form
                   else image' p),
                created_at = created_at p\<rparr> # ys))\<rparr>))"
  using edit_product_post [OF assms(1-5), of env form] assms(6)
  by (cases p) simp

lemma digit_value_simps [simp]:
  "digit_value CHR ''0'' = Some 0" "digit_value CHR ''1'' = Some 1"
  "digit_value CHR ''2'' = Some 2" "digit_value CHR ''3'' = Some 3"
  "digit_value CHR ''4'' = Some 4" "digit_value CHR ''5'' = Some 5"
  "digit_value CHR ''6'' = Some 6" "digit_value CHR ''7'' = Some 7"
  "digit_value CHR ''8'' = Some 8" "digit_value CHR ''9'' = Some 9"
  "digit_value CHR ''a'' = None" "digit_value CHR ''-'' = None"
  by (simp_all add: digit_value_def)

lemma decimal_float_samples:
  "decimal_float ''59.5'' = Some (119 / 2)"
  "decimal_float ''29.90'' = Some (299 / 10)"
  "decimal_float ''-5'' = Some (- 5)"
  "decimal_float ''abc'' = None"
  by (simp_all add: decimal_float_def)

theorem update_frame_witness:
  "stored_products (snd (edit_product sample_env 2 POST pants_form
       (stocked_world admin_session)))
     = [shirt,
        \<lparr>id' = 2, name = Some ''Trousers'', description = Some ''Wool trousers'',
         price = 119 / 2, category = Some ''bottoms'', sizes = [''S''],
         image' = ''uploads/20240101120500_pants.png'',
         created_at = ''2024-01-01T12:05:00''\<rparr>] \<and>
   stored_products (snd (edit_product sample_env 1 POST shirt_form
       (stocked_world admin_session)))
     = [\<lparr>id' = 1, name = Some ''Shirt'', description = Some ''Cotton shirt'',
         price = 299 / 10, category = Some ''tops'', sizes = [''M'', ''L''],
         image' = ''uploads/20240101120000_shirt.png'',
         created_at = ''2024-01-01T12:00:00''\<rparr>,
        pants] \<and>
   uploads (snd (edit_product sample_env 1 POST shirt_form (stocked_world admin_session)))
     = [''static/uploads/20240101120000_shirt.png'']"
proof -
  have adm: "is_admin_session (stocked_world admin_session)"
    by (simp add: is_admin_session_def stocked_world_def fresh_world_def admin_session_def)
  have ld: "load_json (products_file (stocked_world admin_session)) = Inr (Some [shirt, pants])"
    by (simp add: stocked_world_def)
  have ids: "id' shirt = 1" "id' pants = 2"
    by (simp_all add: shirt_def pants_def)
  have f2: "to_float sample_env (form_price pants_form) = Inr (119 / 2)"
    by (simp add: to_float_def pants_form_def decimal_float_samples)
  have f1: "to_float sample_env (form_price shirt_form) = Inr (299 / 10)"
    by (simp add: to_float_def shirt_form_def decimal_float_samples)
  have s2: "get_default (Some [shirt, pants]) = [shirt] @ pants # []"
    by (simp add: get_default_def)
  have s1: "get_default (Some [shirt, pants]) = [] @ shirt # [pants]"
    by (simp add: get_default_def)
  have n2: "\<forall>q \<in> set [shirt]. id' q \<noteq> 2"
    by (simp add: ids)
  have n1: "\<forall>q \<in> set ([] :: rat product list). id' q \<noteq> 1"
    by simp
  have up: "uploads (stocked_world admin_session) = []"
    by (simp add: stocked_world_def fresh_world_def)
  show ?thesis
    using update_frame [OF adm ld s2 n2 ids(2) f2] update_frame [OF adm ld s1 n1 ids(1) f1]
    by (simp add: stored_products_def get_default_def truthy_def pants_form_def shirt_form_def
        stored_name_def up, simp add: pants_def shirt_def)
qed

text \<open>
  C10. For an admin, a products file that loads and the first record of the id, the
  update checks no field for presence. With a price that \<open>float\<close> reads, the record
  written at that place has the name, the description and the category of the form as
  they came, None (null) for a field that was not sent. Without a price field the request
  ends in the TypeError of \<open>float(None)\<close>, and with a price that \<open>float\<close> does not read in
  its ValueError: no notice is flashed, and nothing is written.
\<close>

theorem update_without_validation:
  assumes "is_admin_session w"
    and "load_json (products_file w) = Inr d"
    and "get_default d = xs @ p # ys"
    and "\<forall>q \<in> set xs. id' q \<noteq> i"
    and "id' p = i"
  shows
    "(to_float env (form_price form) = Inr pr \<longrightarrow>
        fst (edit_product env i POST form w) = Inr (Redirect EAdminPanel) \<and>
        name (stored_products (snd (edit_product env i POST form w)) ! length xs)
          = form_name form \<and>
        description (stored_products (snd (edit_product env i POST form w)) ! length xs)
          = form_description form \<and>
        category (stored_products (snd (edit_product env i POST form w)) ! length xs)
          = form_category form) \<and>
     (form_price form = None \<longrightarrow> edit_product env i POST form w = (Inl TypeError, w)) \<and>
     (form_price form = Some s \<and> py_float env s = None \<longrightarrow>
        edit_product env i POST form w = (Inl ValueError, w))"
  using edit_product_post [OF assms, of env form]
  by (auto simp: stored_products_def get_default_def to_float_def)

theorem update_without_validation_witness:
  "stored_products (snd (edit_product sample_env 2 POST (blank_form (Some ''59.5''))
       (stocked_world admin_session)))
     = [shirt,
        \<lparr>id' = 2, name = None, description = None, price = 119 / 2, category = None,
         sizes = [], image' = ''uploads/20240101120500_pants.png'',
         created_at = ''2024-01-01T12:05:00''\<rparr>] \<and>
   edit_product sample_env 2 POST (blank_form None) (stocked_world admin_session)
     = (Inl TypeError, stocked_world admin_session) \<and>
   edit_product sample_env 2 POST (blank_form (Some ''abc'')) (stocked_world admin_session)
     = (Inl ValueError, stocked_world admin_session)"
proof -
  have adm: "is_admin_session (stocked_world admin_session)"
    by (simp add: is_admin_session_def stocked_world_def fresh_world_def admin_session_def)
  have ld: "load_json (products_file (stocked_world admin_session)) = Inr (Some [shirt, pants])"
    by (simp add: stocked_world_def)
  have ids: "id' shirt = 1" "id' pants = 2"
    by (simp_all add: shirt_def pants_def)
  have s2: "get_default (Some [shirt, pants]) = [shirt] @ pants # []"
    by (simp add: get_default_def)
  have n2: "\<forall>q \<in> set [shirt]. id' q \<noteq> 2"
    by (simp add: ids)
  have f: "to_float sample_env (form_price (blank_form (Some ''59.5''))) = Inr (119 / 2)"
    by (simp add: to_float_def blank_form_def decimal_float_samples)
  have rest: "stored_products (snd (edit_product sample_env 2 POST (blank_form (Some ''59.5''))
       (stocked_world admin_session)))
     = [shirt,
        \<lparr>id' = 2, name = None, description = None, price = 119 / 2, category = None,
         sizes = [], image' = ''uploads/20240101120500_pants.png'',
         created_at = ''2024-01-01T12:05:00''\<rparr>]"
    using edit_product_post [OF adm ld s2 n2 ids(2), of sample_env "blank_form (Some ''59.5'')"]
    by (simp add: f stored_products_def get_default_def truthy_def, simp add: blank_form_def pants_def)
  show ?thesis
    using update_without_validation [OF adm ld s2 n2 ids(2), of sample_env "blank_form None"
        "119 / 2" "''abc''"]
      update_without_validation [OF adm ld s2 n2 ids(2), of sample_env "blank_form (Some ''abc'')"
        "119 / 2" "''abc''"]
      update_without_validation [OF adm ld s2 n2 ids(2), of sample_env "blank_form (Some ''59.5'')"
        "119 / 2" "''abc''"]
    by (simp add: rest, simp add: blank_form_def decimal_float_samples)
qed

section \<open>Identifiers\<close>

lemma max_default_Max:
  "max_default 0 xs = (if xs = [] then 0 else Max (set xs))"
proof (cases xs)
  case Nil
  then show ?thesis by (simp add: max_default_def)
next
  case (Cons a list)
  have "fold max list a = Max (set (a # list))"
    by (rule Max.set_eq_fold [symmetric])
  with Cons show ?thesis by (simp add: max_default_def)
qed

lemma max_default_greater: "x \<in> set xs \<Longrightarrow> x < max_default 0 xs + 1"
proof -
  assume "x \<in> set xs"
  then have "x \<le> Max (set xs)" and "xs \<noteq> []"
    by auto
  then show ?thesis
    by (simp add: max_default_Max)
qed

lemma max_default_fresh: "p \<in> set ps \<Longrightarrow> max_default 0 (map id' ps) + 1 \<noteq> id' p"
  using max_default_greater [of "id' p" "map id' ps"] by auto

lemma add_product_post:
  assumes "is_admin_session w"
    and "load_json (products_file w) = Inr d"
    and "present form"
  shows "add_product env POST form w =
     (case to_float env (form_price form) of
        Inl e \<Rightarrow>
          (Inl e, w\<lparr>uploads := uploads w @ [''static/uploads/'' @ stored_name env form]\<rparr>)
      | Inr pr \<Rightarrow>
          (Inr (Redirect EAdminPanel),
           flash ProductAdded Success
             (w\<lparr>uploads := uploads w @ [''static/uploads/'' @ stored_name env form],
                products_file := Parsed (Some (get_default d @
                  [\<lparr>id' = max_default 0 (map id' (get_default d)) + 1,
                    name = form_name form,
                    description = form_description form,
                    price = pr,
                    category = form_category form,
                    sizes = form_sizes form,
                    image' = ''uploads/'' @ stored_name env form,
                    created_at = isoformat_now env\<rparr>]))\<rparr>)))"
proof -
  from assms(3) obtain n where "file_image form = Some n"
    by (auto simp: present_def truthy_def split: option.splits)
  then show ?thesis
    using assms
    by (simp add: add_product_def add_product_view_def save_json_def Let_def
        split: sum.splits)
qed

lemma add_product_missing:
  assumes "is_admin_session w" and "\<not> present form"
  shows "add_product env POST form w = (Inr (Redirect EAddProduct), flash FillAllFields Error w)"
  using assms by (simp add: add_product_def add_product_view_def present_def)

lemma ids_flash [simp]: "ids (flash m c w) = ids w"
  by (simp add: ids_def stored_products_def)

lemma ids_other_fields [simp]:
  "ids (w\<lparr>uploads := up\<rparr>) = ids w"
  "ids (w\<lparr>users_file := us\<rparr>) = ids w"
  "ids (w\<lparr>session := se\<rparr>) = ids w"
  by (simp_all add: ids_def stored_products_def)

lemma ids_Parsed: "products_file w = Parsed (Some ps) \<Longrightarrow> ids w = map id' ps"
  by (simp add: ids_def stored_products_def get_default_def)

lemma ids_load: "load_json (products_file w) = Inr d \<Longrightarrow> ids w = map id' (get_default d)"
  by (simp add: ids_def stored_products_def)

lemma distinct_admin_required:
  assumes "\<And>w. distinct (ids w) \<Longrightarrow> distinct (ids (snd (f w)))"
  shows "distinct (ids w) \<Longrightarrow> distinct (ids (snd (admin_required f w)))"
  using assms by (simp add: admin_required_def)

lemma distinct_index: "distinct (ids w) \<Longrightarrow> distinct (ids (snd (index env w)))"
  by (cases "products_file w")
    (auto simp: index_def load_json_def caught_def init_json_files_def Let_def ids_Parsed
      ids_def stored_products_def get_default_def)

lemma distinct_product_detail:
  "distinct (ids w) \<Longrightarrow> distinct (ids (snd (product_detail i w)))"
  by (simp add: product_detail_def split: sum.splits option.splits)

lemma distinct_register:
  "distinct (ids w) \<Longrightarrow> distinct (ids (snd (register env m f w)))"
  by (auto simp: register_def Let_def split: sum.splits option.splits)

lemma distinct_login: "distinct (ids w) \<Longrightarrow> distinct (ids (snd (login env m f w)))"
  by (auto simp: login_def Let_def split: sum.splits option.splits bool.splits)

lemma distinct_logout: "distinct (ids w) \<Longrightarrow> distinct (ids (snd (logout w)))"
  by (simp add: logout_def)

lemma distinct_admin_panel: "distinct (ids w) \<Longrightarrow> distinct (ids (snd (admin_panel w)))"
  unfolding admin_panel_def
  by (rule distinct_admin_required) (simp_all add: admin_panel_view_def split: sum.splits)

lemma distinct_add_product_view:
  "distinct (ids w) \<Longrightarrow> distinct (ids (snd (add_product_view env m f w)))"
proof -
  assume dist: "distinct (ids w)"
  have new: "ids (w'\<lparr>products_file := Parsed (Some (get_default d @ [p]))\<rparr>)
      = map id' (get_default d) @ [id' p]" for w' :: "'a world" and d p
    by (simp add: ids_def stored_products_def get_default_def)
  show ?thesis
    using dist
    by (auto simp: add_product_view_def Let_def new save_json_def ids_load
        dest: max_default_fresh split: sum.splits)
qed

lemma distinct_add_product:
  "distinct (ids w) \<Longrightarrow> distinct (ids (snd (add_product env m f w)))"
  unfolding add_product_def
  by (rule distinct_admin_required) (rule distinct_add_product_view)

lemma next_index_less: "next_index P xs = Some k \<Longrightarrow> k < length xs"
  by (induction xs arbitrary: k) (auto split: if_splits)

lemma map_id_update:
  "k < length ps \<Longrightarrow> id' q = id' (ps ! k) \<Longrightarrow> map id' (ps[k := q]) = map id' ps"
  by (simp add: map_update list_update_same_conv)

lemma distinct_edit_product_view:
  "distinct (ids w) \<Longrightarrow> distinct (ids (snd (edit_product_view env i m f w)))"
proof -
  assume dist: "distinct (ids w)"
  have new: "ids (w'\<lparr>products_file := Parsed (Some ps)\<rparr>) = map id' ps"
    for w' :: "'a world" and ps
    by (simp add: ids_def stored_products_def get_default_def)
  show ?thesis
    using dist
    by (auto simp: edit_product_view_def Let_def new save_json_def ids_load map_id_update
        dest: next_index_less split: sum.splits option.splits)
qed

lemma distinct_edit_product:
  "distinct (ids w) \<Longrightarrow> distinct (ids (snd (edit_product env i m f w)))"
  unfolding edit_product_def
  by (rule distinct_admin_required) (rule distinct_edit_product_view)

lemma distinct_delete_product:
  "distinct (ids w) \<Longrightarrow> distinct (ids (snd (delete_product i w)))"
  unfolding delete_product_def
proof (rule distinct_admin_required)
  fix w :: "'a world"
  assume "distinct (ids w)"
  then show "distinct (ids (snd (delete_product_view i w)))"
    by (auto simp: delete_product_view_def save_json_def ids_def stored_products_def
        get_default_def distinct_map_filter split: sum.splits)
qed

lemma distinct_handle: "distinct (ids w) \<Longrightarrow> distinct (ids (snd (handle env r w)))"
  by (cases r)
    (simp_all add: distinct_index distinct_product_detail distinct_register distinct_login
      distinct_logout distinct_admin_panel distinct_add_product distinct_edit_product
      distinct_delete_product)

lemma distinct_run: "distinct (ids w) \<Longrightarrow> distinct (ids (run rs w))"
  by (induction rs arbitrary: w) (auto simp: distinct_handle)

lemma readyE:
  assumes "ready w"
  obtains d where "is_admin_session w" and "load_json (products_file w) = Inr d"
  using assms by (cases "load_json (products_file w)") (auto simp: ready_def)

lemma ids_add_product:
  assumes "ready w" and "present form" and "to_float env (form_price form) = Inr pr"
  shows "ids (snd (add_product env POST form w)) = ids w @ [max_default 0 (ids w) + 1]"
    and "ready (snd (add_product env POST form w))"
proof -
  from assms(1) obtain d where adm: "is_admin_session w"
    and ld: "load_json (products_file w) = Inr d"
    by (rule readyE)
  note post = add_product_post [OF adm ld assms(2), of env]
  show "ids (snd (add_product env POST form w)) = ids w @ [max_default 0 (ids w) + 1]"
    by (simp add: post assms(3) ids_load [OF ld])
      (simp add: ids_def stored_products_def get_default_def)
  show "ready (snd (add_product env POST form w))"
    using adm by (simp add: post assms(3) ready_def)
qed

lemma ids_delete_product:
  assumes "ready w"
  shows "ids (snd (delete_product i w)) = filter (\<lambda>k. k \<noteq> i) (ids w)"
    and "ready (snd (delete_product i w))"
proof -
  from assms obtain d where adm: "is_admin_session w"
    and ld: "load_json (products_file w) = Inr d"
    by (rule readyE)
  note post = delete_product_result [OF adm ld, of i]
  show "ids (snd (delete_product i w)) = filter (\<lambda>k. k \<noteq> i) (ids w)"
    by (simp add: post ids_load [OF ld])
      (simp add: ids_def stored_products_def get_default_def filter_map comp_def)
  show "ready (snd (delete_product i w))"
    using adm by (simp add: post ready_def)
qed

lemma ready_fresh_world: "ready (fresh_world admin_session)"
  by (simp add: ready_def is_admin_session_def fresh_world_def admin_session_def)

lemma ids_fresh_world: "ids (fresh_world s) = []"
  by (simp add: ids_def stored_products_def fresh_world_def get_default_def)

lemma present_shirt_form: "present shirt_form"
  by (simp add: present_def shirt_form_def truthy_def)

lemma to_float_shirt_form: "to_float sample_env (form_price shirt_form) = Inr (299 / 10)"
  by (simp add: to_float_def shirt_form_def decimal_float_samples)

text \<open>
  C1, as stated, fails: the next id is taken from the ids that are stored now, not from
  the ids that were ever given. After the only product is deleted, the next create gives
  its id again.
\<close>

theorem id_reused_counterexample:
  "ids (run [(sample_env, AddProduct POST shirt_form)] (fresh_world admin_session)) = [1] \<and>
   ids (run [(sample_env, AddProduct POST shirt_form), (sample_env, DeleteProduct 1)]
         (fresh_world admin_session)) = [] \<and>
   ids (run [(sample_env, AddProduct POST shirt_form), (sample_env, DeleteProduct 1),
             (sample_env, AddProduct POST shirt_form)]
         (fresh_world admin_session)) = [1]"
proof -
  let ?w0 = "fresh_world admin_session"
  let ?w1 = "snd (add_product sample_env POST shirt_form ?w0)"
  let ?w2 = "snd (delete_product 1 ?w1)"
  let ?w3 = "snd (add_product sample_env POST shirt_form ?w2)"
  note add = ids_add_product [OF _ present_shirt_form to_float_shirt_form]
  have i1: "ids ?w1 = [1]" and r1: "ready ?w1"
    using add [OF ready_fresh_world] by (simp_all add: ids_fresh_world max_default_def)
  have i2: "ids ?w2 = []" and r2: "ready ?w2"
    using ids_delete_product [OF r1, of 1] by (simp_all add: i1)
  have i3: "ids ?w3 = [1]"
    using add(1) [OF r2] by (simp add: i2 max_default_def)
  show ?thesis
    by (simp add: i1 i2 i3)
qed

lemma ids_recreate:
  assumes "ready w" and "present form" and "to_float env (form_price form) = Inr pr"
  shows "ids (snd (add_product env POST form
            (snd (delete_product (last (ids (snd (add_product env POST form w))))
               (snd (add_product env POST form w))))))
         = ids (snd (add_product env POST form w))"
proof -
  let ?n = "max_default 0 (ids w) + 1"
  let ?w1 = "snd (add_product env POST form w)"
  let ?w2 = "snd (delete_product ?n ?w1)"
  have i1: "ids ?w1 = ids w @ [?n]" and r1: "ready ?w1"
    using ids_add_product [OF assms] by simp_all
  have keep: "filter (\<lambda>k. k \<noteq> ?n) (ids w) = ids w"
    using max_default_greater [of "max_default 0 (ids w) + 1" "ids w"]
    by (auto simp: filter_id_conv)
  have i2: "ids ?w2 = ids w" and r2: "ready ?w2"
    using ids_delete_product [OF r1, of ?n] by (simp_all add: i1 keep)
  have "ids (snd (add_product env POST form ?w2)) = ids w @ [?n]"
    using ids_add_product(1) [OF r2 assms(2,3)] by (simp add: i2)
  then show ?thesis
    by (simp add: i1)
qed

text \<open>
  C1, amended. A create by an admin, of a form with every required field, a price that
  \<open>float\<close> reads and a products file that loads, appends one record whose id is the
  greatest id stored at that moment, or 0 when none is stored, plus 1; this id is greater
  than every id stored at that moment. The ids that were given are not kept: when the
  product just created is deleted and the create is repeated, the same id is given again.
  Whatever the requests served, if the stored ids were pairwise distinct before, they are
  pairwise distinct after.
\<close>

theorem create_ids:
  "(ready w \<and> present form \<and> to_float env (form_price form) = Inr pr \<longrightarrow>
      ids (snd (add_product env POST form w))
        = ids w @ [(if ids w = [] then 0 else Max (set (ids w))) + 1] \<and>
      (\<forall>k \<in> set (ids w). k < (if ids w = [] then 0 else Max (set (ids w))) + 1) \<and>
      ids (snd (add_product env POST form
            (snd (delete_product (last (ids (snd (add_product env POST form w))))
               (snd (add_product env POST form w))))))
        = ids (snd (add_product env POST form w))) \<and>
   (distinct (ids w) \<longrightarrow> distinct (ids (run rs w)))"
proof (intro conjI impI ballI)
  assume h: "ready w \<and> present form \<and> to_float env (form_price form) = Inr pr"
  then show "ids (snd (add_product env POST form w))
      = ids w @ [(if ids w = [] then 0 else Max (set (ids w))) + 1]"
    using ids_add_product(1) [of w form env pr] max_default_Max [of "ids w"] by simp
next
  fix k
  assume "k \<in> set (ids w)"
  then show "k < (if ids w = [] then 0 else Max (set (ids w))) + 1"
    using max_default_greater [of k "ids w"] max_default_Max [of "ids w"] by simp
next
  assume h: "ready w \<and> present form \<and> to_float env (form_price form) = Inr pr"
  then show "ids (snd (add_product env POST form
            (snd (delete_product (last (ids (snd (add_product env POST form w))))
               (snd (add_product env POST form w))))))
        = ids (snd (add_product env POST form w))"
    using ids_recreate [of w form env pr] by simp
next
  assume "distinct (ids w)"
  then show "distinct (ids (run rs w))"
    by (rule distinct_run)
qed

theorem create_ids_witness:
  "ids (snd (add_product sample_env POST shirt_form (stocked_world admin_session))) = [1, 2, 3] \<and>
   ids (snd (add_product sample_env POST shirt_form
         (snd (delete_product 3
            (snd (add_product sample_env POST shirt_form (stocked_world admin_session)))))))
     = [1, 2, 3] \<and>
   distinct (ids (run [(sample_env, AddProduct POST shirt_form), (sample_env, DeleteProduct 1),
                       (sample_env, AddProduct POST shirt_form), (sample_env, Index)]
                   (stocked_world admin_session)))"
proof -
  have r: "ready (stocked_world admin_session)"
    by (simp add: ready_def is_admin_session_def stocked_world_def fresh_world_def
        admin_session_def)
  have i: "ids (stocked_world admin_session) = [1, 2]"
    by (simp add: ids_def stored_products_def stocked_world_def get_default_def shirt_def
        pants_def)
  have c: "ready (stocked_world admin_session) \<and> present shirt_form \<and>
      to_float sample_env (form_price shirt_form) = Inr (299 / 10)"
    by (simp add: r present_shirt_form to_float_shirt_form)
  note t = create_ids [of "stocked_world admin_session" shirt_form sample_env "299 / 10"
        "[(sample_env, AddProduct POST shirt_form), (sample_env, DeleteProduct 1),
          (sample_env, AddProduct POST shirt_form), (sample_env, Index)]"]
  have a: "ids (snd (add_product sample_env POST shirt_form (stocked_world admin_session)))
      = [1, 2, 3]"
    using t c by (simp add: i)
  have b: "ids (snd (add_product sample_env POST shirt_form
         (snd (delete_product 3
            (snd (add_product sample_env POST shirt_form (stocked_world admin_session)))))))
     = [1, 2, 3]"
    using t c by (simp add: a)
  have d: "distinct (ids (run [(sample_env, AddProduct POST shirt_form),
        (sample_env, DeleteProduct 1), (sample_env, AddProduct POST shirt_form),
        (sample_env, Index)] (stocked_world admin_session)))"
    using t by (simp add: i)
  show ?thesis
    using a b d by blast
qed

section \<open>Creating a product\<close>

text \<open>
  C3, as stated, fails: the create checks that the price was sent, and converts it with
  \<open>float\<close>, but compares it with nothing. A negative price is stored, and a price that
  \<open>float\<close> does not read ends the request in a ValueError, with no notice flashed.
\<close>

theorem negative_price_counterexample:
  "map price (stored_products (snd (add_product sample_env POST
       (shirt_form\<lparr>form_price := Some ''-5''\<rparr>) (fresh_world admin_session)))) = [- 5] \<and>
   fst (add_product sample_env POST (shirt_form\<lparr>form_price := Some ''-5''\<rparr>)
       (fresh_world admin_session)) = Inr (Redirect EAdminPanel) \<and>
   fst (add_product sample_env POST (shirt_form\<lparr>form_price := Some ''abc''\<rparr>)
       (fresh_world admin_session)) = Inl ValueError \<and>
   flashes (session (snd (add_product sample_env POST (shirt_form\<lparr>form_price := Some ''abc''\<rparr>)
       (fresh_world admin_session)))) = []"
proof -
  have adm: "is_admin_session (fresh_world admin_session)"
    by (simp add: is_admin_session_def fresh_world_def admin_session_def)
  have ld: "load_json (products_file (fresh_world admin_session)) = Inr (Some [])"
    by (simp add: fresh_world_def)
  have pr: "present (shirt_form\<lparr>form_price := Some s\<rparr>)" if "s \<noteq> []" for s
    using that by (simp add: present_def shirt_form_def truthy_def)
  have neg: "to_float sample_env (Some ''-5'') = Inr (- 5)"
    by (simp add: to_float_def decimal_float_samples)
  have bad: "to_float sample_env (Some ''abc'') = Inl ValueError"
    by (simp add: to_float_def decimal_float_samples)
  have none: "flashes (session (fresh_world admin_session)) = []"
    by (simp add: fresh_world_def admin_session_def)
  show ?thesis
    using add_product_post [OF adm ld pr, of "''-5''" sample_env]
      add_product_post [OF adm ld pr, of "''abc''" sample_env]
    by (simp add: neg bad none stored_products_def get_default_def)
qed

text \<open>
  C3, amended. A create by an admin checks that name, description, price, category and
  image are present, and nothing about the value of the price. If one is missing, the
  answer is the notice FillAllFields and the world is otherwise as it was: no product is
  stored and no upload kept. If all are present, the products file loads and \<open>float\<close>
  reads the price, of whatever sign, the record of exactly these fields, the next id, the
  reference of the stored upload and the time of creation is appended. If \<open>float\<close> does
  not read the price, the request ends in a ValueError: the upload is kept, and the
  products file is as it was.
\<close>

theorem create_validation:
  assumes "is_admin_session w"
  shows
    "(\<not> present form \<longrightarrow>
        add_product env POST form w = (Inr (Redirect EAddProduct), flash FillAllFields Error w)) \<and>
     (present form \<and> load_json (products_file w) = Inr d \<and> form_price form = Some s \<and>
      py_float env s = Some pr \<longrightarrow>
        add_product env POST form w =
          (Inr (Redirect EAdminPanel),
           flash ProductAdded Success
             (w\<lparr>uploads := uploads w @ [''static/uploads/'' @ stored_name env form],
                products_file := Parsed (Some (get_default d @
                  [\<lparr>id' = max_default 0 (map id' (get_default d)) + 1,
                    name = form_name form,
                    description = form_description form,
                    price = pr,
                    category = form_category form,
                    sizes = form_sizes form,
                    image' = ''uploads/'' @ stored_name env form,
                    created_at = isoformat_now env\<rparr>]))\<rparr>))) \<and>
     (present form \<and> load_json (products_file w) = Inr d \<and> form_price form = Some s \<and>
      py_float env s = None \<longrightarrow>
        add_product env POST form w =
          (Inl ValueError,
           w\<lparr>uploads := uploads w @ [''static/uploads/'' @ stored_name env form]\<rparr>))"
proof (intro conjI impI)
  assume "\<not> present form"
  with assms show
    "add_product env POST form w = (Inr (Redirect EAddProduct), flash FillAllFields Error w)"
    by (rule add_product_missing)
next
  assume h: "present form \<and> load_json (products_file w) = Inr d \<and> form_price form = Some s \<and>
      py_float env s = Some pr"
  then have "to_float env (form_price form) = Inr pr"
    by (simp add: to_float_def)
  with h show "add_product env POST form w =
          (Inr (Redirect EAdminPanel),
           flash ProductAdded Success
             (w\<lparr>uploads := uploads w @ [''static/uploads/'' @ stored_name env form],
                products_file := Parsed (Some (get_default d @
                  [\<lparr>id' = max_default 0 (map id' (get_default d)) + 1,
                    name = form_name form,
                    description = form_description form,
                    price = pr,
                    category = form_category form,
                    sizes = form_sizes form,
                    image' = ''uploads/'' @ stored_name env form,
                    created_at = isoformat_now env\<rparr>]))\<rparr>))"
    using add_product_post [OF assms, of d form env] by simp
next
  assume h: "present form \<and> load_json (products_file w) = Inr d \<and> form_price form = Some s \<and>
      py_float env s = None"
  then have "to_float env (form_price form) = Inl ValueError"
    by (simp add: to_float_def)
  with h show "add_product env POST form w =
          (Inl ValueError,
           w\<lparr>uploads := uploads w @ [''static/uploads/'' @ stored_name env form]\<rparr>)"
    using add_product_post [OF assms, of d form env] by simp
qed

theorem create_validation_witness:
  "add_product sample_env POST (shirt_form\<lparr>form_category := Some []\<rparr>)
       (stocked_world admin_session)
     = (Inr (Redirect EAddProduct), flash FillAllFields Error (stocked_world admin_session)) \<and>
   stored_products (snd (add_product sample_env POST shirt_form (stocked_world admin_session)))
     = [shirt, pants,
        \<lparr>id' = 3, name = Some ''Shirt'', description = Some ''Cotton shirt'',
         price = 299 / 10, category = Some ''tops'', sizes = [''M'', ''L''],
         image' = ''uploads/20240101120000_shirt.png'',
         created_at = ''2024-01-01T12:00:00''\<rparr>] \<and>
   add_product sample_env POST (shirt_form\<lparr>form_price := Some ''abc''\<rparr>)
       (stocked_world admin_session)
     = (Inl ValueError,
        (stocked_world admin_session)\<lparr>uploads := [''static/uploads/20240101120000_shirt.png'']\<rparr>)"
proof -
  have adm: "is_admin_session (stocked_world admin_session)"
    by (simp add: is_admin_session_def stocked_world_def fresh_world_def admin_session_def)
  have ld: "load_json (products_file (stocked_world admin_session)) = Inr (Some [shirt, pants])"
    by (simp add: stocked_world_def)
  have up: "uploads (stocked_world admin_session) = []"
    by (simp add: stocked_world_def fresh_world_def)
  have m: "max_default 0 [id' shirt, id' pants] = 2"
    by (simp add: max_default_def shirt_def pants_def)
  have n: "stored_name sample_env (shirt_form\<lparr>form_price := x\<rparr>) = ''20240101120000_shirt.png''"
    "stored_name sample_env shirt_form = ''20240101120000_shirt.png''" for x
    by (simp_all add: stored_name_def shirt_form_def)
  have p: "\<not> present (shirt_form\<lparr>form_category := Some []\<rparr>)" "present shirt_form"
    "present (shirt_form\<lparr>form_price := Some ''abc''\<rparr>)"
    by (simp_all add: present_def shirt_form_def truthy_def)
  have f: "form_price shirt_form = Some ''29.90''"
    by (simp add: shirt_form_def)
  have rest: "form_name shirt_form = Some ''Shirt''"
    "form_description shirt_form = Some ''Cotton shirt''"
    "form_category shirt_form = Some ''tops''" "form_sizes shirt_form = [''M'', ''L'']"
    by (simp_all add: shirt_form_def)
  show ?thesis
    using create_validation [OF adm, of "shirt_form\<lparr>form_category := Some []\<rparr>" sample_env
        "Some [shirt, pants]" "''29.90''" "299 / 10"]
      create_validation [OF adm, of shirt_form sample_env
        "Some [shirt, pants]" "''29.90''" "299 / 10"]
      create_validation [OF adm, of "shirt_form\<lparr>form_price := Some ''abc''\<rparr>" sample_env
        "Some [shirt, pants]" "''abc''" "299 / 10"]
    by (simp add: p ld f decimal_float_samples up m n rest stored_products_def get_default_def)
qed

section \<open>Load failures\<close>

lemma init_json_files_fields:
  "users_file (init_json_files env w)
     = (if users_file w = Missing then Parsed (Some [admin env]) else users_file w)"
  "products_file (init_json_files env w)
     = (if products_file w = Missing then Parsed (Some []) else products_file w)"
  "uploads (init_json_files env w) = uploads w"
  "session (init_json_files env w) = session w"
  by (simp_all add: init_json_files_def Let_def)

text \<open>
  What the routes that do not guard the load do when it fails: the exception leaves the
  handler. The create has saved the upload by then.
\<close>

lemma load_failure_unguarded:
  "load_json (users_file w) = Inl e \<Longrightarrow> truthy (form_email c) \<Longrightarrow> truthy (form_password c) \<Longrightarrow>
     register env POST c w = (Inl e, w)"
  "load_json (users_file w) = Inl e \<Longrightarrow> login env POST c w = (Inl e, w)"
  "load_json (products_file w) = Inl e \<Longrightarrow> is_admin_session w \<Longrightarrow>
     admin_panel w = (Inl e, w)"
  "load_json (products_file w) = Inl e \<Longrightarrow> is_admin_session w \<Longrightarrow> present f \<Longrightarrow>
     add_product env POST f w
       = (Inl e, w\<lparr>uploads := uploads w @ [''static/uploads/'' @ stored_name env f]\<rparr>)"
  "load_json (products_file w) = Inl e \<Longrightarrow> is_admin_session w \<Longrightarrow>
     edit_product env i m f w = (Inl e, w)"
  "load_json (products_file w) = Inl e \<Longrightarrow> is_admin_session w \<Longrightarrow>
     delete_product i w = (Inl e, w)"
  by (auto simp: register_def login_def admin_panel_def admin_panel_view_def add_product_def
      add_product_view_def edit_product_def edit_product_view_def delete_product_def
      delete_product_view_def truthy_def Let_def split: option.splits)

text \<open>
  The two except clauses name FileNotFoundError and JSONDecodeError. The
  UnicodeDecodeError of a file that is not UTF-8 passes both.
\<close>

lemma load_failure_escapes:
  "products_file w = Undecodable \<Longrightarrow> index env w = (Inl UnicodeDecodeError, w)"
  "products_file w = Undecodable \<Longrightarrow> product_detail i w = (Inl UnicodeDecodeError, w)"
  by (simp_all add: index_def product_detail_def load_json_def caught_def)

text \<open>
  C2, as stated, fails: the product detail does not re-initialize a collection that
  fails to load and does not go on with an empty one. Its except clause flashes the
  notice LoadError and redirects, and the file stays missing.
\<close>

theorem detail_no_reinit_counterexample:
  "product_detail 1 (missing_world anonymous)
     = (Inr (Redirect EIndex), flash LoadError Error (missing_world anonymous)) \<and>
   products_file (snd (product_detail 1 (missing_world anonymous))) = Missing \<and>
   load_json (products_file (snd (product_detail 1 (missing_world anonymous))))
     = Inl FileNotFoundError"
  by (simp add: product_detail_def load_json_def caught_def missing_world_def)

text \<open>
  C2, amended. When the products file is missing or holds text that is not JSON, the
  listing raises nothing: it renders the empty list, and leaves the upload folder and the
  session as they were. A products file that was missing is written as the empty
  collection, which the next listing loads; a users file that was missing is written with
  the default admin, and one that was there is left as it is. The product detail raises
  nothing either: it redirects to the landing page with the notice LoadError and writes
  no file.
\<close>

theorem load_failure_recovery:
  "products_file w = Missing \<or> products_file w = Unparsable \<longrightarrow>
     fst (index env w) = Inr (Render (IndexPage [])) \<and>
     uploads (snd (index env w)) = uploads w \<and>
     session (snd (index env w)) = session w \<and>
     (products_file w = Missing \<longrightarrow>
        products_file (snd (index env w)) = Parsed (Some []) \<and>
        index env (snd (index env w)) = (Inr (Render (IndexPage [])), snd (index env w))) \<and>
     (users_file w = Missing \<longrightarrow>
        users_file (snd (index env w)) = Parsed (Some [admin env])) \<and>
     (users_file w \<noteq> Missing \<longrightarrow> users_file (snd (index env w)) = users_file w) \<and>
     product_detail i w = (Inr (Redirect EIndex), flash LoadError Error w) \<and>
     products_file (snd (product_detail i w)) = products_file w \<and>
     users_file (snd (product_detail i w)) = users_file w"
proof
  assume "products_file w = Missing \<or> products_file w = Unparsable"
  then obtain e where ld: "load_json (products_file w) = Inl e" and c: "caught e"
    by (auto simp: load_json_def caught_def)
  have ix: "index env w = (Inr (Render (IndexPage [])), init_json_files env w)"
    by (simp add: index_def ld c)
  have pd: "product_detail i w = (Inr (Redirect EIndex), flash LoadError Error w)"
    by (simp add: product_detail_def ld c)
  have again: "products_file w = Missing \<longrightarrow>
      index env (init_json_files env w) = (Inr (Render (IndexPage [])), init_json_files env w)"
    by (simp add: index_def init_json_files_fields get_default_def)
  show "fst (index env w) = Inr (Render (IndexPage [])) \<and>
     uploads (snd (index env w)) = uploads w \<and>
     session (snd (index env w)) = session w \<and>
     (products_file w = Missing \<longrightarrow>
        products_file (snd (index env w)) = Parsed (Some []) \<and>
        index env (snd (index env w)) = (Inr (Render (IndexPage [])), snd (index env w))) \<and>
     (users_file w = Missing \<longrightarrow>
        users_file (snd (index env w)) = Parsed (Some [admin env])) \<and>
     (users_file w \<noteq> Missing \<longrightarrow> users_file (snd (index env w)) = users_file w) \<and>
     product_detail i w = (Inr (Redirect EIndex), flash LoadError Error w) \<and>
     products_file (snd (product_detail i w)) = products_file w \<and>
     users_file (snd (product_detail i w)) = users_file w"
    using again by (simp add: ix pd init_json_files_fields)
qed

theorem load_failure_recovery_witness:
  "fst (index sample_env (missing_world anonymous)) = Inr (Render (IndexPage [])) \<and>
   products_file (snd (index sample_env (missing_world anonymous))) = Parsed (Some []) \<and>
   users_file (snd (index sample_env (missing_world anonymous)))
     = Parsed (Some [admin sample_env]) \<and>
   fst (index sample_env (broken_world anonymous)) = Inr (Render (IndexPage [])) \<and>
   users_file (snd (index sample_env (broken_world anonymous)))
     = Parsed (Some [admin sample_env]) \<and>
   product_detail 1 (broken_world anonymous)
     = (Inr (Redirect EIndex), flash LoadError Error (broken_world anonymous))"
proof -
  have m: "products_file (missing_world anonymous) = Missing"
    "users_file (missing_world anonymous) = Missing"
    by (simp_all add: missing_world_def)
  have b: "products_file (broken_world anonymous) = Unparsable"
    "users_file (broken_world anonymous) = Parsed (Some [admin sample_env])"
    by (simp_all add: broken_world_def fresh_world_def)
  show ?thesis
    using load_failure_recovery [of "missing_world anonymous" sample_env 1]
      load_failure_recovery [of "broken_world anonymous" sample_env 1]
    by (simp add: m b)
qed

section \<open>The document store\<close>

text \<open>
  C9, as stated, fails: \<open>load_json\<close> on a missing file raises FileNotFoundError, it yields
  no collection; and the users collection that \<open>init_json_files\<close> writes for a missing
  file is not empty, it holds the default admin.
\<close>

theorem load_missing_counterexample:
  "load_json (products_file (missing_world anonymous)) = Inl FileNotFoundError \<and>
   load_json (users_file (missing_world anonymous)) = Inl FileNotFoundError \<and>
   load_json (users_file (init_json_files sample_env (missing_world anonymous)))
     = Inr (Some [\<lparr>email = ''admin@modabrasileira.com'', password = ''salt$admin123'',
                   is_admin = Some True\<rparr>])"
  by (simp add: missing_world_def load_json_def init_json_files_fields admin_def)

text \<open>
  C9, amended. \<open>load_json\<close> raises FileNotFoundError on a missing file and
  JSONDecodeError on one that does not parse. \<open>init_json_files\<close> writes, for a missing
  products file, the empty collection, and for a missing users file the collection of the
  default admin alone; both load afterwards. What \<open>save_json\<close> wrote, \<open>load_json\<close> reads
  back: the encoding is the json library's, and the model keeps the document as the
  content of the file.
\<close>

theorem store_round_trip:
  "load_json (Missing :: 'a json_file) = Inl FileNotFoundError \<and>
   load_json (Unparsable :: 'a json_file) = Inl JSONDecodeError \<and>
   (products_file w = Missing \<longrightarrow>
      load_json (products_file (init_json_files env w)) = Inr (Some [])) \<and>
   (users_file w = Missing \<longrightarrow>
      load_json (users_file (init_json_files env w)) = Inr (Some [admin env])) \<and>
   load_json (save_json (d :: 'a document)) = Inr d \<and>
   stored_products (w\<lparr>products_file := save_json (Some ps)\<rparr>) = ps"
  by (simp add: load_json_def save_json_def init_json_files_fields stored_products_def
      get_default_def)

theorem store_round_trip_witness:
  "load_json (products_file (init_json_files sample_env (missing_world anonymous)))
     = Inr (Some []) \<and>
   load_json (users_file (init_json_files sample_env (missing_world anonymous)))
     = Inr (Some [admin sample_env]) \<and>
   load_json (save_json (Some [shirt, pants])) = Inr (Some [shirt, pants]) \<and>
   stored_products ((missing_world anonymous)\<lparr>products_file := save_json (Some [shirt])\<rparr>)
     = [shirt]"
  using store_round_trip [of "missing_world anonymous" sample_env "Some [shirt, pants]" "[shirt]"]
  by (simp add: missing_world_def)

end
